theory Spec2Isabelle
  imports Main
begin

section \<open>Values, exceptions and the environment of \<open>backend/app.py\<close>\<close>

text \<open>
  The service handles Python values that come out of \<open>json.loads\<close> and go into JSON
  responses. They are modelled by one datatype. A Python \<open>str\<close> is a HOL \<open>string\<close>,
  one \<open>char\<close> per code point, so the model covers text whose code points lie in
  0..255; \<open>len\<close> and slicing count code points, as \<open>length\<close> and \<open>take\<close> count
  characters. A Python \<open>dict\<close> is an association list in insertion order (lookup
  takes the first entry of a key, assignment replaces it in place or appends). A float
  is carried by its literal: the program never computes with one, it only tests the
  type.
\<close>

datatype json =
    JNull
  | JBool bool
  | JInt int
  | JFloat string
  | JStr string
  | JArr "json list"
  | JObj "(string \<times> json) list"

text \<open>
  Exceptions are values. \<open>HTTPException\<close> and \<open>ValueError\<close> carry what the program
  passes to them; \<open>TypeError\<close>, \<open>AttributeError\<close>, \<open>KeyError\<close> and
  \<open>InvalidLiteral\<close> (the \<open>ValueError\<close> of \<open>int()\<close>) are raised by the
  interpreter; \<open>UpstreamError\<close> is any exception of a provider SDK, of \<open>json.loads\<close>
  or of the operating system, with its message. Every handler of the program is
  \<open>except Exception\<close>, which catches all of them, \<open>HTTPException\<close> included.
\<close>

datatype exn =
    HTTPException nat string
  | ValueError string
  | TypeError
  | AttributeError
  | KeyError string
  | InvalidLiteral string
  | UpstreamError string

text \<open>The module's globals after start-up (lines 29--45).\<close>

record globals =
  DEEPGRAM_API_KEY :: "string option"
  GROQ_API_KEY :: "string option"
  groq_client :: bool  \<comment> \<open>\<open>groq_client is not None\<close>\<close>

text \<open>The Deepgram response, as far as \<open>transcribe_audio\<close> reads it.\<close>

record sentence =
  s_text :: string
  s_start :: string
  s_end :: string

record dg_response =
  dg_transcript :: string
  dg_paragraphs :: "sentence list list"

text \<open>
  Everything outside the program is a parameter: the two LLM calls (the prompt is a
  fixed template around the transcript and, for the quiz, the question count; the
  result is \<open>response.choices[0].message.content\<close>, a string for a completion
  without tool calls, or the exception raised on the way to it),
  \<open>json.loads\<close>, the Deepgram call on a file path, \<open>os.path.splitext(name)[1]\<close>,
  the outcome of writing the upload, the outcome of each call of \<open>os.remove\<close>
  (\<open>os_remove w i p\<close> for the \<open>i\<close>-th call of a request, \<open>None\<close> when the
  file is removed, the exception when it is not), the text \<open>str(e)\<close> of the exceptions whose
  message the interpreter or the framework chooses, and the interpreter's limit on
  the digits \<open>int()\<close> converts (0: no limit).
\<close>

datatype save_outcome = Saved | OpenFailed exn | CopyFailed exn

record world =
  groq_summary :: "string \<Rightarrow> exn + string"
  groq_quiz :: "string \<Rightarrow> int \<Rightarrow> exn + string"
  json_loads :: "string \<Rightarrow> exn + json"
  deepgram_transcribe :: "string \<Rightarrow> exn + dg_response"
  splitext_ext :: "string \<Rightarrow> string"
  save_upload :: "string \<Rightarrow> save_outcome"
  os_remove :: "nat \<Rightarrow> string \<Rightarrow> exn option"
  exc_text :: "exn \<Rightarrow> string"
  int_max_str_digits :: nat

fun str_exc :: "world \<Rightarrow> exn \<Rightarrow> string" where
  "str_exc w (ValueError m) = m"
| "str_exc w (UpstreamError m) = m"
| "str_exc w e = exc_text w e"

text \<open>\<open>not x\<close> for an optional string: \<open>None\<close> and \<open>""\<close> are falsy.\<close>

definition falsy :: "string option \<Rightarrow> bool" where
  "falsy k = (k = None \<or> k = Some [])"

section \<open>Start-up (lines 25--45)\<close>

text \<open>
  \<open>getenv\<close> is the process environment after \<open>load_dotenv()\<close>;
  \<open>groq_importable\<close> says whether \<open>from groq import Groq\<close> succeeds.
\<close>

definition startup :: "(string \<Rightarrow> string option) \<Rightarrow> bool \<Rightarrow> exn + globals" where
  "startup getenv groq_importable =
     (let dk = getenv ''DEEPGRAM_API_KEY'' in
      if falsy dk then Inl (ValueError ''Missing DEEPGRAM_API_KEY environment variable'')
      else
        let gk = getenv ''GROQ_API_KEY'' in
        Inr \<lparr>DEEPGRAM_API_KEY = dk, GROQ_API_KEY = gk,
             groq_client = (\<not> falsy gk \<and> groq_importable)\<rparr>)"

section \<open>Python operations on values\<close>

text \<open>\<open>needle in hay\<close> for two strings: a contiguous occurrence.\<close>

fun str_contains :: "string \<Rightarrow> string \<Rightarrow> bool" where
  "str_contains needle [] = (needle = [])"
| "str_contains needle (c # cs) =
     (take (length needle) (c # cs) = needle \<or> str_contains needle cs)"

text \<open>
  \<open>k in q\<close> for a string \<open>k\<close>: key membership in a dict, substring in a string,
  element equality in a list, \<open>TypeError\<close> on anything else.
\<close>

fun py_contains :: "string \<Rightarrow> json \<Rightarrow> exn + bool" where
  "py_contains k (JObj kvs) = Inr (map_of kvs k \<noteq> None)"
| "py_contains k (JStr s) = Inr (str_contains k s)"
| "py_contains k (JArr xs) = Inr (List.member xs (JStr k))"
| "py_contains k v = Inl TypeError"

text \<open>\<open>q[k]\<close> for a string \<open>k\<close>: only a dict can be indexed by a string.\<close>

fun py_getitem :: "json \<Rightarrow> string \<Rightarrow> exn + json" where
  "py_getitem (JObj kvs) k =
     (case map_of kvs k of None \<Rightarrow> Inl (KeyError k) | Some v \<Rightarrow> Inr v)"
| "py_getitem v k = Inl TypeError"

fun dict_set :: "(string \<times> json) list \<Rightarrow> string \<Rightarrow> json \<Rightarrow> (string \<times> json) list" where
  "dict_set [] k v = [(k, v)]"
| "dict_set ((k', v') # kvs) k v =
     (if k' = k then (k, v) # kvs else (k', v') # dict_set kvs k v)"

text \<open>\<open>q[k] = v\<close> for a string \<open>k\<close>.\<close>

fun py_setitem :: "json \<Rightarrow> string \<Rightarrow> json \<Rightarrow> exn + json" where
  "py_setitem (JObj kvs) k v = Inr (JObj (dict_set kvs k v))"
| "py_setitem q k v = Inl TypeError"

text \<open>\<open>len(v)\<close>: lists, strings and dicts have a length.\<close>

fun py_len :: "json \<Rightarrow> exn + nat" where
  "py_len (JArr xs) = Inr (length xs)"
| "py_len (JStr s) = Inr (length s)"
| "py_len (JObj kvs) = Inr (length kvs)"
| "py_len v = Inl TypeError"

text \<open>\<open>for q in v\<close>: the elements of a list, the characters of a string, the keys of a dict.\<close>

fun py_iter :: "json \<Rightarrow> exn + json list" where
  "py_iter (JArr xs) = Inr xs"
| "py_iter (JStr s) = Inr (map (\<lambda>c. JStr [c]) s)"
| "py_iter (JObj kvs) = Inr (map (\<lambda>kv. JStr (fst kv)) kvs)"
| "py_iter v = Inl TypeError"

text \<open>\<open>isinstance(v, int)\<close> holds for \<open>bool\<close> too, and \<open>True\<close> compares as 1.\<close>

fun int_value :: "json \<Rightarrow> int option" where
  "int_value (JInt n) = Some n"
| "int_value (JBool b) = Some (if b then 1 else 0)"
| "int_value v = None"

text \<open>
  \<open>str.isdigit()\<close> on code points up to 255: the ASCII digits, and the superscripts
  U+00B2, U+00B3 and U+00B9, which are digits for \<open>isdigit\<close> but not decimal digits.
\<close>

definition is_decimal :: "char \<Rightarrow> bool" where
  "is_decimal c = (48 \<le> (of_char c :: nat) \<and> (of_char c :: nat) \<le> 57)"

definition is_superscript :: "char \<Rightarrow> bool" where
  "is_superscript c = ((of_char c :: nat) = 178 \<or> (of_char c :: nat) = 179 \<or> (of_char c :: nat) = 185)"

definition isdigit :: "string \<Rightarrow> bool" where
  "isdigit s = (s \<noteq> [] \<and> list_all (\<lambda>c. is_decimal c \<or> is_superscript c) s)"

fun decimal_value :: "int \<Rightarrow> string \<Rightarrow> int" where
  "decimal_value acc [] = acc"
| "decimal_value acc (c # cs) = decimal_value (10 * acc + (int (of_char c) - 48)) cs"

text \<open>
  \<open>int(s)\<close> for a string that passed \<open>isdigit\<close>: the decimal value when every
  character is a decimal digit and the string is within the interpreter's digit
  limit, \<open>ValueError\<close> otherwise.
\<close>

definition py_int :: "world \<Rightarrow> string \<Rightarrow> exn + int" where
  "py_int w s =
     (if list_all is_decimal s \<and> s \<noteq> []
         \<and> (int_max_str_digits w = 0 \<or> length s \<le> int_max_str_digits w)
      then Inr (decimal_value 0 s)
      else Inl (InvalidLiteral s))"

text \<open>Sequencing of computations that may raise: the first exception ends the block.\<close>

definition bind_exn :: "exn + 'a \<Rightarrow> ('a \<Rightarrow> exn + 'b) \<Rightarrow> exn + 'b" where
  "bind_exn m f = (case m of Inl e \<Rightarrow> Inl e | Inr x \<Rightarrow> f x)"

section \<open>The quiz generator (lines 272--394)\<close>

text \<open>The fixed questions of stub mode (lines 278--299).\<close>

definition mock_questions :: "json list" where
  "mock_questions =
     [JObj [(''question'', JStr ''What is the main topic of this mock transcript?''),
            (''options'', JArr [JStr ''Artificial Intelligence'', JStr ''Machine Learning'',
                                JStr ''Data Science'', JStr ''Mock Data'']),
            (''correct_answer'', JInt 3)],
      JObj [(''question'', JStr ''This is a mock question because...''),
            (''options'', JArr [JStr ''The GROQ_API_KEY is not set'',
                                JStr ''The transcript is too short'',
                                JStr ''The system is in testing mode'',
                                JStr ''All of the above'']),
            (''correct_answer'', JInt 0)]]"

text \<open>The single question returned when parsing or validation raises (lines 386--389).\<close>

definition parse_error_question :: "string \<Rightarrow> json" where
  "parse_error_question msg =
     JObj [(''question'', JStr (''Error parsing quiz questions: '' @ msg)),
           (''options'', JArr [JStr ''Error'', JStr ''Try again'', JStr ''Check logs'',
                               JStr ''Contact support'']),
           (''correct_answer'', JInt 2)]"

text \<open>The single question returned when the provider call raises (lines 391--394).\<close>

definition quiz_error_question :: "string \<Rightarrow> json" where
  "quiz_error_question msg =
     JObj [(''question'', JStr (''Error generating quiz: '' @ msg)),
           (''options'', JArr [JStr ''Error'', JStr ''Try again'', JStr ''Check API key'',
                               JStr ''Contact support'']),
           (''correct_answer'', JInt 2)]"

text \<open>\<open>isinstance(value, list) and len(value) > 0\<close> (line 363).\<close>

fun nonempty_list :: "json \<Rightarrow> bool" where
  "nonempty_list (JArr xs) = (xs \<noteq> [])"
| "nonempty_list v = False"

text \<open>
  Lines 355--368: a dict with a \<open>questions\<close> key gives the value of that key, whatever
  its type; a list is taken as it is; any other dict is searched in order for its
  first value that is a non-empty list, and \<open>ValueError\<close> is raised when there is
  none; any other value has no \<open>items\<close> method.
\<close>

fun extract_questions :: "json \<Rightarrow> exn + json" where
  "extract_questions (JObj kvs) =
     (case map_of kvs ''questions'' of
        Some v \<Rightarrow> Inr v
      | None \<Rightarrow>
          (case find (\<lambda>kv. nonempty_list (snd kv)) kvs of
             Some kv \<Rightarrow> Inr (snd kv)
           | None \<Rightarrow> Inl (ValueError ''Could not extract questions array from response'')))"
| "extract_questions (JArr xs) = Inr (JArr xs)"
| "extract_questions v = Inl AttributeError"

text \<open>Line 373: the three membership tests, left to right, stopping at the first that fails.\<close>

definition has_fields :: "json \<Rightarrow> exn + bool" where
  "has_fields q =
     bind_exn (py_contains ''question'' q) (\<lambda>a.
       if \<not> a then Inr False
       else bind_exn (py_contains ''options'' q) (\<lambda>b.
         if \<not> b then Inr False else py_contains ''correct_answer'' q))"

text \<open>Lines 375--376: a string of digits is replaced by \<open>int\<close> of it.\<close>

definition coerce_answer :: "world \<Rightarrow> json \<Rightarrow> exn + json" where
  "coerce_answer w q =
     bind_exn (py_getitem q ''correct_answer'') (\<lambda>ca.
       case ca of
         JStr s \<Rightarrow>
           if isdigit s
           then bind_exn (py_int w s) (\<lambda>n. py_setitem q ''correct_answer'' (JInt n))
           else Inr q
       | _ \<Rightarrow> Inr q)"

text \<open>
  Line 379: \<open>not isinstance(ca, int) or ca < 0 or ca >= len(q["options"])\<close>; the
  options are read only when the first two tests are false.
\<close>

definition answer_invalid :: "json \<Rightarrow> exn + bool" where
  "answer_invalid q =
     bind_exn (py_getitem q ''correct_answer'') (\<lambda>ca.
       case int_value ca of
         None \<Rightarrow> Inr True
       | Some n \<Rightarrow>
           if n < 0 then Inr True
           else bind_exn (py_getitem q ''options'') (\<lambda>opts.
                  bind_exn (py_len opts) (\<lambda>l. Inr (int l \<le> n))))"

text \<open>
  Lines 373--383 for one raw question: \<open>None\<close> when it is skipped, the question to
  append otherwise.
\<close>

definition validate_question :: "world \<Rightarrow> json \<Rightarrow> exn + json option" where
  "validate_question w q =
     bind_exn (has_fields q) (\<lambda>present.
       if \<not> present then Inr None
       else bind_exn (coerce_answer w q) (\<lambda>q1.
         bind_exn (answer_invalid q1) (\<lambda>invalid.
           if invalid
           then bind_exn (py_setitem q1 ''correct_answer'' (JInt 0)) (\<lambda>q2. Inr (Some q2))
           else Inr (Some q1))))"

text \<open>The loop of lines 371--383, with \<open>validated_questions\<close> as accumulator.\<close>

fun validate_loop :: "world \<Rightarrow> json list \<Rightarrow> json list \<Rightarrow> exn + json list" where
  "validate_loop w [] validated_questions = Inr validated_questions"
| "validate_loop w (q # qs) validated_questions =
     (case validate_question w q of
        Inl e \<Rightarrow> Inl e
      | Inr None \<Rightarrow> validate_loop w qs validated_questions
      | Inr (Some q') \<Rightarrow> validate_loop w qs (validated_questions @ [q']))"

text \<open>The body of the inner \<open>try\<close> (lines 353--385).\<close>

definition parse_quiz :: "world \<Rightarrow> string \<Rightarrow> exn + json list" where
  "parse_quiz w quiz_text =
     bind_exn (json_loads w quiz_text) (\<lambda>quiz_data.
       bind_exn (extract_questions quiz_data) (\<lambda>questions.
         bind_exn (py_iter questions) (\<lambda>qs. validate_loop w qs [])))"

definition stub_mode :: "globals \<Rightarrow> bool" where
  "stub_mode g = (falsy (GROQ_API_KEY g) \<or> \<not> groq_client g)"

definition generate_quiz_questions :: "globals \<Rightarrow> world \<Rightarrow> string \<Rightarrow> int \<Rightarrow> json list" where
  "generate_quiz_questions g w transcript num_questions =
     (if stub_mode g then mock_questions
      else
        case groq_quiz w transcript num_questions of
          Inl e \<Rightarrow> [quiz_error_question (str_exc w e)]
        | Inr quiz_text \<Rightarrow>
            (case parse_quiz w quiz_text of
               Inl e \<Rightarrow> [parse_error_question (str_exc w e)]
             | Inr validated_questions \<Rightarrow> validated_questions))"

section \<open>The summary generator (lines 164--237)\<close>

text \<open>
  The bullet U+2022 of the mock summary has no 8-bit character; the constant spells
  it with its three UTF-8 bytes. The program never inspects this text.
\<close>

definition bullet :: string where
  "bullet = [CHR 0xE2, CHR 0x80, CHR 0xA2]"

definition mock_summary :: string where
  "mock_summary =
     ''\<newline>        '' @ bullet @ '' This is a mock summary for development purposes.'' @
     ''\<newline>        '' @ bullet @ '' Please set the GROQ_API_KEY environment variable for actual summary generation.'' @
     ''\<newline>        '' @ bullet @ '' The real summary would extract key points from the transcript.'' @
     ''\<newline>        '' @ bullet @ '' It would be organized as a bullet-point list for easy reading.'' @
     ''\<newline>        ''"

definition generate_bullet_summary :: "globals \<Rightarrow> world \<Rightarrow> string \<Rightarrow> string" where
  "generate_bullet_summary g w transcript =
     (if stub_mode g then mock_summary
      else
        case groq_summary w transcript of
          Inl e \<Rightarrow> ''Error generating summary: '' @ str_exc w e
        | Inr summary \<Rightarrow> summary)"

section \<open>The summary and quiz endpoints (lines 240--270 and 397--435)\<close>

record SummaryRequest =
  transcript :: string

record QuizRequest =
  quiz_transcript :: string
  num_questions :: "int option"

text \<open>
  What the request model makes of the \<open>num_questions\<close> field of a body
  (\<open>Optional[int] = 5\<close>): the default when the field is left out, \<open>None\<close> for an
  explicit \<open>null\<close>, the integer otherwise.
\<close>

datatype body_field = Omitted | Null | Num int

definition QuizRequest_of_body :: "string \<Rightarrow> body_field \<Rightarrow> QuizRequest" where
  "QuizRequest_of_body t f =
     \<lparr>quiz_transcript = t,
      num_questions = (case f of Omitted \<Rightarrow> Some 5 | Null \<Rightarrow> None | Num n \<Rightarrow> Some n)\<rparr>"

definition max_length :: nat where
  "max_length = 16000"

definition truncation_marker :: string where
  "truncation_marker = ''\<newline>[Transcript truncated due to length...]''"

text \<open>Lines 258--261 and 420--423.\<close>

definition truncate_transcript :: "string \<Rightarrow> string" where
  "truncate_transcript t =
     (let truncated_transcript = take max_length t in
      if length t > max_length then truncated_transcript @ truncation_marker
      else truncated_transcript)"

text \<open>
  The body of each endpoint is one \<open>try\<close> whose handler, \<open>except Exception\<close>, turns
  whatever was raised inside into \<open>HTTPException(500)\<close>. \<open>Inl\<close> is the exception
  that leaves the handler function, \<open>Inr\<close> the dict it returns.
\<close>

definition generate_summary_endpoint :: "globals \<Rightarrow> world \<Rightarrow> SummaryRequest \<Rightarrow> exn + json" where
  "generate_summary_endpoint g w request =
     (case (if transcript request = []
            then Inl (HTTPException 400 ''Transcript is required'')
            else
              let summary = generate_bullet_summary g w (truncate_transcript (transcript request))
              in Inr (JObj [(''success'', JBool True), (''summary'', JStr summary)]))
      of
        Inl e \<Rightarrow> Inl (HTTPException 500 (''Error generating summary: '' @ str_exc w e))
      | Inr response \<Rightarrow> Inr response)"

text \<open>Line 426: \<open>max(1, min(request.num_questions, 10))\<close>; comparing \<open>None\<close> with 10 raises.\<close>

definition clamp_num_questions :: "int option \<Rightarrow> exn + int" where
  "clamp_num_questions n =
     (case n of None \<Rightarrow> Inl TypeError | Some k \<Rightarrow> Inr (max 1 (min k 10)))"

definition generate_quiz_endpoint :: "globals \<Rightarrow> world \<Rightarrow> QuizRequest \<Rightarrow> exn + json" where
  "generate_quiz_endpoint g w request =
     (case (if quiz_transcript request = []
            then Inl (HTTPException 400 ''Transcript is required'')
            else
              bind_exn (clamp_num_questions (num_questions request)) (\<lambda>n.
                let questions =
                  generate_quiz_questions g w (truncate_transcript (quiz_transcript request)) n
                in Inr (JObj [(''success'', JBool True), (''questions'', JArr questions)])))
      of
        Inl e \<Rightarrow> Inl (HTTPException 500 (''Error generating quiz: '' @ str_exc w e))
      | Inr response \<Rightarrow> Inr response)"

section \<open>Transcription (lines 56--162)\<close>

definition mock_word :: "string \<Rightarrow> string \<Rightarrow> string \<Rightarrow> json" where
  "mock_word wd s e = JObj [(''word'', JStr wd), (''start'', JFloat s), (''end'', JFloat e)]"

definition mock_transcription :: json where
  "mock_transcription =
     JObj [(''transcript'', JStr ''This is a mock transcription for development purposes. Please set the DEEPGRAM_API_KEY environment variable for actual transcription.''),
           (''words'', JArr [mock_word ''This'' ''0.0'' ''0.3'',
                             mock_word ''is'' ''0.3'' ''0.5'',
                             mock_word ''a'' ''0.5'' ''0.6'',
                             mock_word ''mock'' ''0.6'' ''0.9'',
                             mock_word ''transcription'' ''0.9'' ''1.5'',
                             mock_word ''for'' ''1.5'' ''1.8'',
                             mock_word ''development'' ''1.8'' ''2.5'',
                             mock_word ''purposes'' ''2.5'' ''3.1''])]"

definition format_sentence :: "sentence \<Rightarrow> json" where
  "format_sentence s =
     JObj [(''text'', JStr (s_text s)), (''start'', JFloat (s_start s)), (''end'', JFloat (s_end s))]"

text \<open>
  Lines 56--120. With a key, everything from opening the file to reading the
  response is inside the \<open>try\<close>, and any exception becomes \<open>HTTPException(500)\<close>.
\<close>

definition transcribe_audio :: "globals \<Rightarrow> world \<Rightarrow> string \<Rightarrow> exn + json" where
  "transcribe_audio g w file_path =
     (if falsy (DEEPGRAM_API_KEY g) then Inr mock_transcription
      else
        case deepgram_transcribe w file_path of
          Inl e \<Rightarrow> Inl (HTTPException 500 (''Error during transcription: '' @ str_exc w e))
        | Inr response \<Rightarrow>
            Inr (JObj [(''transcript'', JStr (dg_transcript response)),
                       (''sentences'',
                        JArr (map format_sentence (concat (dg_paragraphs response))))]))"

record upload =
  content_type :: "string option"
  filename :: "string option"

definition UPLOAD_DIR :: string where
  "UPLOAD_DIR = ''uploads''"

text \<open>
  \<open>if os.path.exists(p): os.remove(p)\<close> on the set of paths that exist, as the
  \<open>i\<close>-th removal of the request: the exception raised, if any, and the paths
  that exist afterwards. A removal that raises leaves the file.
\<close>

definition remove_if_exists ::
  "world \<Rightarrow> nat \<Rightarrow> string \<Rightarrow> string set \<Rightarrow> exn option \<times> string set" where
  "remove_if_exists w i p fs =
     (if p \<in> fs
      then (case os_remove w i p of None \<Rightarrow> (None, fs - {p}) | Some e \<Rightarrow> (Some e, fs))
      else (None, fs))"

text \<open>
  Lines 123--162. The state is the set of existing paths; \<open>uuid4\<close> is
  \<open>str(uuid.uuid4())\<close>. The checks before the file is written and the write itself
  are outside the \<open>try\<close>/\<open>finally\<close> that removes the file. A write that fails in
  \<open>open\<close> creates nothing; one that fails while copying leaves the file it opened.
  When the body of the \<open>try\<close> raises, the handler removes the file and raises the
  exception again, and \<open>finally\<close> runs after it; an exception of \<open>os.remove\<close>
  replaces the one that was on its way. When the body returns, only \<open>finally\<close>
  runs, and an exception of \<open>os.remove\<close> replaces the response.
\<close>

definition transcribe_audio_endpoint ::
  "globals \<Rightarrow> world \<Rightarrow> string \<Rightarrow> upload \<Rightarrow> string set \<Rightarrow> (exn + json) \<times> string set" where
  "transcribe_audio_endpoint g w uuid4 file fs =
     (case content_type file of
        None \<Rightarrow> (Inl AttributeError, fs)
      | Some ct \<Rightarrow>
          if take 6 ct \<noteq> ''audio/''
          then (Inl (HTTPException 400 ''File must be an audio file''), fs)
          else
            (case filename file of
               None \<Rightarrow> (Inl TypeError, fs)
             | Some name \<Rightarrow>
                 let file_extension = splitext_ext w name;
                     unique_filename = uuid4 @ file_extension;
                     file_path = UPLOAD_DIR @ ''/'' @ unique_filename
                 in
                 (case save_upload w file_path of
                    OpenFailed e \<Rightarrow>
                      (Inl (HTTPException 500 (''Error saving file: '' @ str_exc w e)), fs)
                  | CopyFailed e \<Rightarrow>
                      (Inl (HTTPException 500 (''Error saving file: '' @ str_exc w e)),
                       insert file_path fs)
                  | Saved \<Rightarrow>
                      let fs1 = insert file_path fs in
                      (case bind_exn (transcribe_audio g w file_path) (\<lambda>transcription_result.
                              bind_exn (py_getitem transcription_result ''transcript'') (\<lambda>t.
                                bind_exn (py_getitem transcription_result ''sentences'') (\<lambda>s.
                                  Inr (JObj [(''success'', JBool True),
                                             (''filename'', JStr name),
                                             (''transcription'', t),
                                             (''sentences'', s)]))))
                       of
                         Inl e \<Rightarrow>
                           (case remove_if_exists w 0 file_path fs1 of
                              (raised, fs2) \<Rightarrow>
                                let pending = (case raised of None \<Rightarrow> e | Some e1 \<Rightarrow> e1) in
                                (case remove_if_exists w 1 file_path fs2 of
                                   (None, fs3) \<Rightarrow> (Inl pending, fs3)
                                 | (Some e2, fs3) \<Rightarrow> (Inl e2, fs3)))
                       | Inr response \<Rightarrow>
                           (case remove_if_exists w 0 file_path fs1 of
                              (None, fs2) \<Rightarrow> (Inr response, fs2)
                            | (Some e1, fs2) \<Rightarrow> (Inl e1, fs2))))))"

section \<open>Properties of returned questions\<close>

text \<open>
  What a reader of a returned question sees: \<open>correct_answer\<close> as an integer and
  \<open>len(options)\<close>, where they are defined.
\<close>

definition answer_of :: "json \<Rightarrow> int option" where
  "answer_of q =
     (case py_getitem q ''correct_answer'' of Inr ca \<Rightarrow> int_value ca | Inl e \<Rightarrow> None)"

definition options_len :: "json \<Rightarrow> nat option" where
  "options_len q =
     (case py_getitem q ''options'' of
        Inr opts \<Rightarrow> (case py_len opts of Inr l \<Rightarrow> Some l | Inl e \<Rightarrow> None)
      | Inl e \<Rightarrow> None)"

text \<open>\<open>0 <= correct_answer < len(options)\<close>.\<close>

definition index_valid :: "json \<Rightarrow> bool" where
  "index_valid q =
     (case answer_of q of
        Some v \<Rightarrow> (case options_len q of Some l \<Rightarrow> 0 \<le> v \<and> v < int l | None \<Rightarrow> False)
      | None \<Rightarrow> False)"

text \<open>\<open>len(options) == 4\<close>.\<close>

definition four_options :: "json \<Rightarrow> bool" where
  "four_options q = (options_len q = Some 4)"

text \<open>The answer is 0 or a valid index.\<close>

definition index_repaired :: "json \<Rightarrow> bool" where
  "index_repaired q = (answer_of q = Some 0 \<or> index_valid q)"

text \<open>
  What the validation is meant to do with one raw question, in the claim's words: a
  question is kept when it has the three fields; a string of decimal digits stands
  for its integer; an answer that is then not an integer, or is out of range for the
  options, becomes 0; nothing else of the question changes.
\<close>

fun complete :: "json \<Rightarrow> bool" where
  "complete (JObj kvs) =
     (map_of kvs ''question'' \<noteq> None \<and> map_of kvs ''options'' \<noteq> None
      \<and> map_of kvs ''correct_answer'' \<noteq> None)"
| "complete v = False"

definition coerced_answer :: "json \<Rightarrow> json" where
  "coerced_answer ca =
     (case ca of
        JStr s \<Rightarrow> if s \<noteq> [] \<and> list_all is_decimal s then JInt (decimal_value 0 s) else ca
      | _ \<Rightarrow> ca)"

definition repaired_answer :: "json \<Rightarrow> nat \<Rightarrow> json" where
  "repaired_answer ca l =
     (case int_value (coerced_answer ca) of
        Some n \<Rightarrow> if 0 \<le> n \<and> n < int l then coerced_answer ca else JInt 0
      | None \<Rightarrow> JInt 0)"

fun repair_question :: "json \<Rightarrow> json" where
  "repair_question (JObj kvs) =
     (case map_of kvs ''correct_answer'' of
        Some ca \<Rightarrow>
          (case map_of kvs ''options'' of
             Some opts \<Rightarrow>
               (case py_len opts of
                  Inr l \<Rightarrow> JObj (dict_set kvs ''correct_answer'' (repaired_answer ca l))
                | Inl e \<Rightarrow> JObj kvs)
           | None \<Rightarrow> JObj kvs)
      | None \<Rightarrow> JObj kvs)"
| "repair_question v = v"

text \<open>
  The raw questions on which lines 373--383 raise nothing: objects whose options,
  when all three fields are present, have a length, and whose answer, when it is a
  string that passes \<open>isdigit\<close>, is one that \<open>int\<close> converts.
\<close>

fun convertible :: "world \<Rightarrow> json \<Rightarrow> bool" where
  "convertible w (JStr s) =
     (if isdigit s then (case py_int w s of Inr n \<Rightarrow> True | Inl e \<Rightarrow> False) else True)"
| "convertible w v = True"

fun well_formed :: "world \<Rightarrow> json \<Rightarrow> bool" where
  "well_formed w (JObj kvs) =
     (if complete (JObj kvs)
      then (case map_of kvs ''options'' of
              Some opts \<Rightarrow> (case py_len opts of Inr l \<Rightarrow> True | Inl e \<Rightarrow> False)
            | None \<Rightarrow> False)
           \<and> (case map_of kvs ''correct_answer'' of
                 Some ca \<Rightarrow> convertible w ca | None \<Rightarrow> False)
      else True)"
| "well_formed w v = False"

section \<open>Sample environments\<close>

text \<open>
  Concrete globals and worlds on which the theorems below are instantiated. In
  \<open>world_with d\<close> the LLM echoes the transcript as summary, its quiz response parses
  to \<open>d\<close>, Deepgram is unreachable, uploads are written and files can be removed.
\<close>

definition live_globals :: globals where
  "live_globals =
     \<lparr>DEEPGRAM_API_KEY = Some ''dg-key'', GROQ_API_KEY = Some ''groq-key'', groq_client = True\<rparr>"

definition stub_globals :: globals where
  "stub_globals =
     \<lparr>DEEPGRAM_API_KEY = Some ''dg-key'', GROQ_API_KEY = None, groq_client = False\<rparr>"

fun sample_exc_text :: "exn \<Rightarrow> string" where
  "sample_exc_text (HTTPException c d) = d"
| "sample_exc_text TypeError = ''TypeError''"
| "sample_exc_text AttributeError = ''AttributeError''"
| "sample_exc_text (KeyError k) = k"
| "sample_exc_text (InvalidLiteral s) = ''invalid literal for int() with base 10''"
| "sample_exc_text e = []"

definition world_with :: "json \<Rightarrow> world" where
  "world_with d =
     \<lparr>groq_summary = (\<lambda>t. Inr t),
      groq_quiz = (\<lambda>t n. Inr ''response''),
      json_loads = (\<lambda>s. Inr d),
      deepgram_transcribe = (\<lambda>p. Inl (UpstreamError ''connection refused'')),
      splitext_ext = (\<lambda>name. ''.mp3''),
      save_upload = (\<lambda>p. Saved),
      os_remove = (\<lambda>i p. None),
      exc_text = sample_exc_text,
      int_max_str_digits = 4300\<rparr>"

text \<open>A provider response with one question that has two options and the answer 5.\<close>

definition two_option_quiz :: json where
  "two_option_quiz =
     JArr [JObj [(''question'', JStr ''Is this a lecture?''),
                 (''options'', JArr [JStr ''Yes'', JStr ''No'']),
                 (''correct_answer'', JInt 5)]]"

text \<open>A provider response with one question that has no options.\<close>

definition no_option_quiz :: json where
  "no_option_quiz =
     JArr [JObj [(''question'', JStr ''Which one?''),
                 (''options'', JArr []),
                 (''correct_answer'', JInt 0)]]"

text \<open>An LLM provider that cannot be reached.\<close>

definition unreachable_llm :: "string \<Rightarrow> exn + string" where
  "unreachable_llm t = Inl (UpstreamError ''connection refused'')"

text \<open>An environment without credentials, a full disk, an audio upload and a Deepgram answer.\<close>

definition no_credentials :: "string \<Rightarrow> string option" where
  "no_credentials name = None"

definition disk_full :: "string \<Rightarrow> save_outcome" where
  "disk_full p = CopyFailed (UpstreamError ''No space left on device'')"

definition lecture_upload :: upload where
  "lecture_upload = \<lparr>content_type = Some ''audio/mpeg'', filename = Some ''lecture.mp3''\<rparr>"

definition deepgram_ok :: "string \<Rightarrow> exn + dg_response" where
  "deepgram_ok p =
     Inr \<lparr>dg_transcript = ''Hello world.'',
          dg_paragraphs = [[\<lparr>s_text = ''Hello world.'', s_start = ''0.0'', s_end = ''1.2''\<rparr>]]\<rparr>"

text \<open>Provider responses, after \<open>json.loads\<close>, in several shapes.\<close>

definition sample_question :: json where
  "sample_question =
     JObj [(''question'', JStr ''What is a lecture?''),
           (''options'', JArr [JStr ''A talk'', JStr ''A meal'', JStr ''A game'', JStr ''A tool'']),
           (''correct_answer'', JInt 0)]"

definition questions_string :: json where
  "questions_string = JObj [(''questions'', JStr ''abc'')]"

definition wrapped_quiz :: json where
  "wrapped_quiz =
     JObj [(''title'', JStr ''Quiz''), (''empty'', JArr []), (''foo'', JArr [sample_question]),
           (''bar'', JArr [JNull])]"

definition superscript_quiz :: json where
  "superscript_quiz =
     JArr [sample_question,
           JObj [(''question'', JStr ''What is two squared?''),
                 (''options'', JArr [JStr ''1'', JStr ''2'', JStr ''4'', JStr ''8'']),
                 (''correct_answer'', JStr [CHR 0xB2])]]"

text \<open>A parsed response that is neither a dict nor a list.\<close>

fun scalar :: "json \<Rightarrow> bool" where
  "scalar (JArr xs) = False"
| "scalar (JObj kvs) = False"
| "scalar v = True"

section \<open>Lemmas on the Python operations\<close>

lemma map_of_dict_set_same: "map_of (dict_set kvs k v) k = Some v"
  by (induction kvs) auto

lemma map_of_dict_set_other: "k' \<noteq> k \<Longrightarrow> map_of (dict_set kvs k v) k' = map_of kvs k'"
  by (induction kvs) auto

lemma bind_exn_Inr: "bind_exn m f = Inr y \<Longrightarrow> \<exists>x. m = Inr x \<and> f x = Inr y"
  by (cases m) (auto simp: bind_exn_def)

lemma py_setitem_Inr:
  "py_setitem q k v = Inr q' \<Longrightarrow> \<exists>kvs. q = JObj kvs \<and> q' = JObj (dict_set kvs k v)"
  by (cases q) auto

lemma py_getitem_Inr:
  "py_getitem q k = Inr v \<Longrightarrow> \<exists>kvs. q = JObj kvs \<and> map_of kvs k = Some v"
  by (cases q) (auto split: option.splits)

lemma stub_mode_stub_globals: "stub_mode stub_globals"
  by (simp add: stub_mode_def stub_globals_def falsy_def)

lemma live_mode_live_globals: "\<not> stub_mode live_globals"
  by (simp add: stub_mode_def live_globals_def falsy_def)

section \<open>The index of the correct answer\<close>

text \<open>A question that passes the range test of line 379 has a valid index.\<close>

lemma answer_invalid_False:
  assumes "answer_invalid q = Inr False"
  shows "index_valid q"
proof -
  from assms obtain ca where ca: "py_getitem q ''correct_answer'' = Inr ca"
    and r: "(case int_value ca of None \<Rightarrow> Inr True
             | Some n \<Rightarrow> if n < 0 then Inr True
                 else bind_exn (py_getitem q ''options'') (\<lambda>opts.
                        bind_exn (py_len opts) (\<lambda>l. Inr (int l \<le> n)))) = Inr False"
    unfolding answer_invalid_def by (blast dest: bind_exn_Inr)
  from r obtain n where n: "int_value ca = Some n" by (cases "int_value ca") auto
  with r have n0: "0 \<le> n" by (auto split: if_splits)
  with r n obtain opts where o: "py_getitem q ''options'' = Inr opts"
    and r2: "bind_exn (py_len opts) (\<lambda>l. Inr (int l \<le> n)) = Inr False"
    by (auto dest: bind_exn_Inr)
  from r2 obtain l where l: "py_len opts = Inr l" and ln: "\<not> int l \<le> n"
    by (auto dest!: bind_exn_Inr)
  show ?thesis using ca n n0 o l ln
    by (simp add: index_valid_def answer_of_def options_len_def)
qed

text \<open>Every question the loop appends has the answer 0 or a valid index.\<close>

lemma validate_question_repaired:
  assumes "validate_question w q = Inr (Some q')"
  shows "index_repaired q'"
proof -
  from assms obtain present where "has_fields q = Inr present"
    and r: "(if \<not> present then Inr None
       else bind_exn (coerce_answer w q) (\<lambda>q1.
         bind_exn (answer_invalid q1) (\<lambda>invalid.
           if invalid
           then bind_exn (py_setitem q1 ''correct_answer'' (JInt 0)) (\<lambda>q2. Inr (Some q2))
           else Inr (Some q1)))) = Inr (Some q')"
    unfolding validate_question_def by (blast dest: bind_exn_Inr)
  from r have "present" by (auto split: if_splits)
  with r obtain q1 where "coerce_answer w q = Inr q1"
    and r1: "bind_exn (answer_invalid q1) (\<lambda>invalid.
           if invalid
           then bind_exn (py_setitem q1 ''correct_answer'' (JInt 0)) (\<lambda>q2. Inr (Some q2))
           else Inr (Some q1)) = Inr (Some q')"
    by (auto dest: bind_exn_Inr)
  from r1 obtain invalid where inv: "answer_invalid q1 = Inr invalid"
    and r2: "(if invalid
           then bind_exn (py_setitem q1 ''correct_answer'' (JInt 0)) (\<lambda>q2. Inr (Some q2))
           else Inr (Some q1)) = Inr (Some q')"
    by (blast dest: bind_exn_Inr)
  show ?thesis
  proof (cases invalid)
    case True
    with r2 obtain q2 where "py_setitem q1 ''correct_answer'' (JInt 0) = Inr q2" and "q' = q2"
      by (auto dest: bind_exn_Inr)
    then obtain kvs where "q' = JObj (dict_set kvs ''correct_answer'' (JInt 0))"
      by (auto dest: py_setitem_Inr)
    then show ?thesis
      by (simp add: index_repaired_def answer_of_def map_of_dict_set_same)
  next
    case False
    with r2 inv have "q' = q1" "answer_invalid q1 = Inr False" by auto
    then show ?thesis by (simp add: index_repaired_def answer_invalid_False)
  qed
qed

text \<open>The loop keeps any property that holds of the accumulator and of what it appends.\<close>

lemma validate_loop_all:
  assumes "validate_loop w qs acc = Inr out" and "list_all P acc"
    and "\<And>q q'. validate_question w q = Inr (Some q') \<Longrightarrow> P q'"
  shows "list_all P out"
  using assms
proof (induction qs arbitrary: acc)
  case Nil
  then show ?case by simp
next
  case (Cons q qs)
  show ?case
  proof (cases "validate_question w q")
    case (Inl e)
    with Cons.prems show ?thesis by simp
  next
    case (Inr r)
    show ?thesis
    proof (cases r)
      case None
      with Inr Cons.prems have "validate_loop w qs acc = Inr out" by simp
      then show ?thesis using Cons.IH Cons.prems by blast
    next
      case (Some q')
      with Inr Cons.prems have l: "validate_loop w qs (acc @ [q']) = Inr out" by simp
      have "P q'" using Cons.prems(3) Inr Some by blast
      with Cons.prems(2) have "list_all P (acc @ [q'])" by simp
      with l show ?thesis using Cons.IH Cons.prems(3) by blast
    qed
  qed
qed

lemma parse_quiz_repaired:
  assumes "parse_quiz w quiz_text = Inr out"
  shows "list_all index_repaired out"
proof -
  from assms obtain qs where "validate_loop w qs [] = Inr out"
    unfolding parse_quiz_def by (blast dest: bind_exn_Inr)
  then show ?thesis
    by (rule validate_loop_all) (simp_all add: validate_question_repaired)
qed

lemma mock_questions_ok: "list_all (\<lambda>q. index_valid q \<and> four_options q) mock_questions"
  by (simp add: mock_questions_def index_valid_def four_options_def answer_of_def
      options_len_def)

lemma parse_error_question_ok:
  "index_valid (parse_error_question m) \<and> four_options (parse_error_question m)"
  by (simp add: parse_error_question_def index_valid_def four_options_def answer_of_def
      options_len_def)

lemma quiz_error_question_ok:
  "index_valid (quiz_error_question m) \<and> four_options (quiz_error_question m)"
  by (simp add: quiz_error_question_def index_valid_def four_options_def answer_of_def
      options_len_def)

lemma index_valid_repaired: "index_valid q \<Longrightarrow> index_repaired q"
  by (simp add: index_repaired_def)

lemma index_repaired_valid:
  assumes "index_repaired q" and "options_len q = Some l" and "0 < l"
  shows "index_valid q"
  using assms by (auto simp: index_repaired_def index_valid_def)

lemma generate_quiz_questions_repaired:
  "list_all index_repaired (generate_quiz_questions g w t n)"
proof (cases "stub_mode g")
  case True
  then show ?thesis using mock_questions_ok
    by (simp add: generate_quiz_questions_def list_all_iff index_repaired_def)
next
  case False
  show ?thesis
  proof (cases "groq_quiz w t n")
    case (Inl e)
    with False show ?thesis
      by (simp add: generate_quiz_questions_def quiz_error_question_ok index_valid_repaired)
  next
    case (Inr quiz_text)
    show ?thesis
    proof (cases "parse_quiz w quiz_text")
      case (Inl e)
      with False Inr show ?thesis
        by (simp add: generate_quiz_questions_def parse_error_question_ok index_valid_repaired)
    next
      case (Inr out)
      with False \<open>groq_quiz w t n = Inr quiz_text\<close> show ?thesis
        by (simp add: generate_quiz_questions_def parse_quiz_repaired)
    qed
  qed
qed

lemma generate_quiz_questions_degraded:
  assumes "stub_mode g \<or> (\<exists>e. groq_quiz w t n = Inl e)
           \<or> (\<exists>quiz_text e. groq_quiz w t n = Inr quiz_text \<and> parse_quiz w quiz_text = Inl e)"
  shows "list_all (\<lambda>q. index_valid q \<and> four_options q) (generate_quiz_questions g w t n)"
  using assms mock_questions_ok
  by (auto simp: generate_quiz_questions_def parse_error_question_ok quiz_error_question_ok)

text \<open>The validation of well-formed raw questions, as a function.\<close>

lemma dict_set_same: "map_of kvs k = Some v \<Longrightarrow> dict_set kvs k v = kvs"
  by (induction kvs) (auto split: if_splits)

lemma dict_set_twice: "dict_set (dict_set kvs k a) k b = dict_set kvs k b"
  by (induction kvs) auto

lemma not_isdigit_not_decimal: "\<not> isdigit s \<Longrightarrow> \<not> (s \<noteq> [] \<and> list_all is_decimal s)"
  by (auto simp: isdigit_def list_all_iff)

lemma py_int_Inr: "py_int w s = Inr n \<Longrightarrow> s \<noteq> [] \<and> list_all is_decimal s \<and> n = decimal_value 0 s"
  by (auto simp: py_int_def split: if_splits)

lemma incomplete_dropped: "\<not> complete (JObj kvs) \<Longrightarrow> validate_question w (JObj kvs) = Inr None"
  by (auto simp: validate_question_def has_fields_def bind_exn_def)

lemma has_fields_complete: "complete (JObj kvs) \<Longrightarrow> has_fields (JObj kvs) = Inr True"
  by (auto simp: has_fields_def bind_exn_def)

lemma coerce_answer_result:
  assumes "map_of kvs ''correct_answer'' = Some ca" and "convertible w ca"
  shows "coerce_answer w (JObj kvs) = Inr (JObj (dict_set kvs ''correct_answer'' (coerced_answer ca)))"
proof (cases ca)
  case (JStr s)
  show ?thesis
  proof (cases "isdigit s")
    case True
    with assms JStr obtain n where n: "py_int w s = Inr n" by (auto split: sum.splits)
    then have "s \<noteq> [] \<and> list_all is_decimal s \<and> n = decimal_value 0 s" by (rule py_int_Inr)
    then show ?thesis using assms(1) JStr True n
      by (simp add: coerce_answer_def bind_exn_def coerced_answer_def)
  next
    case False
    then have "\<not> (s \<noteq> [] \<and> list_all is_decimal s)" by (rule not_isdigit_not_decimal)
    then show ?thesis using assms(1) JStr False
      by (auto simp: coerce_answer_def bind_exn_def coerced_answer_def dict_set_same)
  qed
qed (use assms(1) in \<open>simp_all add: coerce_answer_def bind_exn_def coerced_answer_def dict_set_same\<close>)

lemma answer_invalid_result:
  assumes "map_of kvs ''correct_answer'' = Some c" and "map_of kvs ''options'' = Some opts"
    and "py_len opts = Inr l"
  shows "answer_invalid (JObj kvs) =
     Inr (case int_value c of Some n \<Rightarrow> \<not> (0 \<le> n \<and> n < int l) | None \<Rightarrow> True)"
  using assms by (auto simp: answer_invalid_def bind_exn_def split: option.splits)

lemma validate_question_well_formed:
  assumes "well_formed w (JObj kvs)" and "complete (JObj kvs)"
  shows "validate_question w (JObj kvs) = Inr (Some (repair_question (JObj kvs)))"
proof -
  from assms obtain ca opts l where ca: "map_of kvs ''correct_answer'' = Some ca"
    and o: "map_of kvs ''options'' = Some opts" and l: "py_len opts = Inr l"
    and cv: "convertible w ca"
    by (auto split: option.splits sum.splits)
  let ?c = "coerced_answer ca"
  let ?q1 = "JObj (dict_set kvs ''correct_answer'' ?c)"
  have c1: "coerce_answer w (JObj kvs) = Inr ?q1" using ca cv by (rule coerce_answer_result)
  have a1: "answer_invalid ?q1 =
     Inr (case int_value ?c of Some n \<Rightarrow> \<not> (0 \<le> n \<and> n < int l) | None \<Rightarrow> True)"
    using o l by (intro answer_invalid_result) (simp_all add: map_of_dict_set_same map_of_dict_set_other)
  have r: "repair_question (JObj kvs) = JObj (dict_set kvs ''correct_answer'' (repaired_answer ca l))"
    using ca o l by simp
  show ?thesis
    using has_fields_complete [OF assms(2)] c1 a1
    by (auto simp del: repair_question.simps
        simp: validate_question_def bind_exn_def r repaired_answer_def dict_set_twice
        split: option.splits)
qed

lemma validate_loop_well_formed:
  assumes "\<forall>q \<in> set qs. well_formed w q"
  shows "validate_loop w qs acc = Inr (acc @ map repair_question (filter complete qs))"
  using assms
proof (induction qs arbitrary: acc)
  case Nil
  then show ?case by simp
next
  case (Cons q qs)
  then have wf: "well_formed w q" and rest: "\<forall>q \<in> set qs. well_formed w q" by simp_all
  from wf obtain kvs where q: "q = JObj kvs" by (cases q) simp_all
  show ?case
  proof (cases "complete q")
    case True
    then have "validate_question w q = Inr (Some (repair_question q))"
      using wf q validate_question_well_formed by blast
    then show ?thesis using True Cons.IH [OF rest] by simp
  next
    case False
    then have "validate_question w q = Inr None" using q incomplete_dropped by blast
    then show ?thesis using False Cons.IH [OF rest] by simp
  qed
qed

lemma live_array_repaired:
  assumes "\<not> stub_mode g" and "groq_quiz w t n = Inr quiz_text"
    and "json_loads w quiz_text = Inr d" and "extract_questions d = Inr (JArr qs)"
    and "\<forall>q \<in> set qs. well_formed w q"
  shows "generate_quiz_questions g w t n = map repair_question (filter complete qs)"
  using assms(1-4) validate_loop_well_formed [OF assms(5), of "[]"]
  by (simp add: generate_quiz_questions_def parse_quiz_def bind_exn_def)

lemma repair_keeps_other_fields:
  "k \<noteq> ''correct_answer'' \<Longrightarrow> py_getitem (repair_question q) k = py_getitem q k"
  by (cases q) (auto simp: map_of_dict_set_other split: option.splits sum.splits)

lemma repair_valid_unchanged: "index_valid q \<Longrightarrow> repair_question q = q"
  by (cases q)
    (auto simp: index_valid_def answer_of_def options_len_def repaired_answer_def
      coerced_answer_def dict_set_same split: option.splits sum.splits json.splits)

lemma repair_invalid_zero:
  assumes "map_of kvs ''correct_answer'' = Some ca" and "map_of kvs ''options'' = Some opts"
    and "py_len opts = Inr l"
    and "\<forall>n. int_value (coerced_answer ca) = Some n \<longrightarrow> n < 0 \<or> int l \<le> n"
  shows "answer_of (repair_question (JObj kvs)) = Some 0"
  using assms
  by (auto simp: answer_of_def repaired_answer_def map_of_dict_set_same split: option.splits)

text \<open>
  C1. Claimed: every question returned by a quiz generation, in live, stub or degraded
  mode, has \<open>0 <= correct_answer < len(options)\<close> and exactly four options, an
  invalid index being repaired to 0. The program never checks the number of options,
  so both parts fail in live mode: a provider question with two options is returned
  with two options, and one with no options is returned with the answer 0, which
  indexes nothing.
\<close>

theorem two_option_question_returned:
  "generate_quiz_questions live_globals (world_with two_option_quiz) ''lecture'' 5 =
     [JObj [(''question'', JStr ''Is this a lecture?''),
            (''options'', JArr [JStr ''Yes'', JStr ''No'']),
            (''correct_answer'', JInt 0)]]
   \<and> \<not> list_all four_options
         (generate_quiz_questions live_globals (world_with two_option_quiz) ''lecture'' 5)
   \<and> generate_quiz_questions live_globals (world_with no_option_quiz) ''lecture'' 5 =
     [JObj [(''question'', JStr ''Which one?''),
            (''options'', JArr []),
            (''correct_answer'', JInt 0)]]
   \<and> \<not> list_all index_valid
         (generate_quiz_questions live_globals (world_with no_option_quiz) ''lecture'' 5)"
  by (simp add: generate_quiz_questions_def live_globals_def world_with_def stub_mode_def
      falsy_def parse_quiz_def bind_exn_def two_option_quiz_def no_option_quiz_def
      validate_question_def has_fields_def coerce_answer_def answer_invalid_def
      four_options_def index_valid_def answer_of_def options_len_def)

text \<open>
  C1, as the program has it. Every returned question carries an integer
  \<open>correct_answer\<close> that is 0 or a valid index into its options, so the index is
  valid for every returned question whose options are not empty. In stub mode and in
  the two degraded modes (the provider call raised; parsing or validation raised) the
  returned questions are the fixed ones of that mode (the two mock questions, or the
  single error question with the message of the exception) and have exactly four
  options. In live mode, when the response
  gives an array of well-formed raw questions, the result is the questions that have
  the three fields, in order, each repaired: all fields but \<open>correct_answer\<close> are
  the provider's, the options and their number included; a valid integer answer is
  left as it is; an answer that is not an integer or is out of range is set to 0 and
  the question is kept.
\<close>

theorem quiz_answer_index_repaired:
  "list_all index_repaired (generate_quiz_questions g w t n)
   \<and> (\<forall>q \<in> set (generate_quiz_questions g w t n).
        (\<exists>l. options_len q = Some l \<and> 0 < l) \<longrightarrow> index_valid q)
   \<and> (stub_mode g \<or> (\<exists>e. groq_quiz w t n = Inl e)
        \<or> (\<exists>quiz_text e. groq_quiz w t n = Inr quiz_text \<and> parse_quiz w quiz_text = Inl e)
      \<longrightarrow> list_all (\<lambda>q. index_valid q \<and> four_options q) (generate_quiz_questions g w t n))
   \<and> (\<not> stub_mode g \<and> groq_quiz w t n = Inr quiz_text \<and> json_loads w quiz_text = Inr d
        \<and> extract_questions d = Inr (JArr qs) \<and> (\<forall>q \<in> set qs. well_formed w q)
      \<longrightarrow> generate_quiz_questions g w t n = map repair_question (filter complete qs))
   \<and> (\<forall>k. k \<noteq> ''correct_answer'' \<longrightarrow> py_getitem (repair_question r) k = py_getitem r k)
   \<and> (index_valid r \<longrightarrow> repair_question r = r)
   \<and> (map_of kvs ''correct_answer'' = Some ca \<and> map_of kvs ''options'' = Some opts
        \<and> py_len opts = Inr l
        \<and> (\<forall>m. int_value (coerced_answer ca) = Some m \<longrightarrow> m < 0 \<or> int l \<le> m)
      \<longrightarrow> answer_of (repair_question (JObj kvs)) = Some 0)
   \<and> (stub_mode g \<longrightarrow> generate_quiz_questions g w t n = mock_questions)
   \<and> (\<not> stub_mode g \<and> groq_quiz w t n = Inl e
      \<longrightarrow> generate_quiz_questions g w t n = [quiz_error_question (str_exc w e)])
   \<and> (\<not> stub_mode g \<and> groq_quiz w t n = Inr quiz_text \<and> parse_quiz w quiz_text = Inl e
      \<longrightarrow> generate_quiz_questions g w t n = [parse_error_question (str_exc w e)])"
proof -
  have a: "list_all index_repaired (generate_quiz_questions g w t n)"
    by (rule generate_quiz_questions_repaired)
  have b: "\<forall>q \<in> set (generate_quiz_questions g w t n).
        (\<exists>l. options_len q = Some l \<and> 0 < l) \<longrightarrow> index_valid q"
    using a by (auto simp: list_all_iff intro: index_repaired_valid)
  have c: "stub_mode g \<or> (\<exists>e. groq_quiz w t n = Inl e)
        \<or> (\<exists>quiz_text e. groq_quiz w t n = Inr quiz_text \<and> parse_quiz w quiz_text = Inl e)
      \<longrightarrow> list_all (\<lambda>q. index_valid q \<and> four_options q) (generate_quiz_questions g w t n)"
    using generate_quiz_questions_degraded [of g w t n] by blast
  have d: "\<not> stub_mode g \<and> groq_quiz w t n = Inr quiz_text \<and> json_loads w quiz_text = Inr d
        \<and> extract_questions d = Inr (JArr qs) \<and> (\<forall>q \<in> set qs. well_formed w q)
      \<longrightarrow> generate_quiz_questions g w t n = map repair_question (filter complete qs)"
    using live_array_repaired [of g w t n quiz_text d qs] by blast
  have e: "\<forall>k. k \<noteq> ''correct_answer'' \<longrightarrow> py_getitem (repair_question r) k = py_getitem r k"
    by (simp add: repair_keeps_other_fields)
  have f: "index_valid r \<longrightarrow> repair_question r = r"
    by (simp add: repair_valid_unchanged)
  have h: "map_of kvs ''correct_answer'' = Some ca \<and> map_of kvs ''options'' = Some opts
        \<and> py_len opts = Inr l
        \<and> (\<forall>m. int_value (coerced_answer ca) = Some m \<longrightarrow> m < 0 \<or> int l \<le> m)
      \<longrightarrow> answer_of (repair_question (JObj kvs)) = Some 0"
    using repair_invalid_zero [of kvs ca opts l] by blast
  have i: "stub_mode g \<longrightarrow> generate_quiz_questions g w t n = mock_questions"
    by (simp add: generate_quiz_questions_def)
  have j: "\<not> stub_mode g \<and> groq_quiz w t n = Inl e
      \<longrightarrow> generate_quiz_questions g w t n = [quiz_error_question (str_exc w e)]"
    by (simp add: generate_quiz_questions_def)
  have k: "\<not> stub_mode g \<and> groq_quiz w t n = Inr quiz_text \<and> parse_quiz w quiz_text = Inl e
      \<longrightarrow> generate_quiz_questions g w t n = [parse_error_question (str_exc w e)]"
    by (simp add: generate_quiz_questions_def)
  show ?thesis using a b c d e f h i j k by blast
qed

theorem quiz_answer_index_repaired_witness:
  "generate_quiz_questions live_globals (world_with two_option_quiz) ''lecture'' 5 =
     [JObj [(''question'', JStr ''Is this a lecture?''),
            (''options'', JArr [JStr ''Yes'', JStr ''No'']),
            (''correct_answer'', JInt 0)]]
   \<and> list_all (\<lambda>q. index_valid q \<and> four_options q)
       (generate_quiz_questions stub_globals (world_with two_option_quiz) ''lecture'' 5)"
proof -
  let ?w = "world_with two_option_quiz"
  let ?q = "JObj [(''question'', JStr ''Is this a lecture?''),
                  (''options'', JArr [JStr ''Yes'', JStr ''No'']),
                  (''correct_answer'', JInt 5)]"
  have p: "groq_quiz ?w ''lecture'' 5 = Inr ''response''"
    "json_loads ?w ''response'' = Inr (JArr [?q])"
    "extract_questions (JArr [?q]) = Inr (JArr [?q])"
    by (simp_all add: world_with_def two_option_quiz_def)
  have wf: "\<forall>q \<in> set [?q]. well_formed ?w q" by simp
  have r: "map repair_question (filter complete [?q]) =
     [JObj [(''question'', JStr ''Is this a lecture?''),
            (''options'', JArr [JStr ''Yes'', JStr ''No'']),
            (''correct_answer'', JInt 0)]]"
    by (simp add: repaired_answer_def coerced_answer_def)
  have "generate_quiz_questions live_globals ?w ''lecture'' 5 = map repair_question (filter complete [?q])"
    using live_mode_live_globals p wf
      quiz_answer_index_repaired [of live_globals ?w "''lecture''" 5 "''response''" "JArr [?q]" "[?q]"]
    by blast
  then have a: "generate_quiz_questions live_globals ?w ''lecture'' 5 =
     [JObj [(''question'', JStr ''Is this a lecture?''),
            (''options'', JArr [JStr ''Yes'', JStr ''No'']),
            (''correct_answer'', JInt 0)]]"
    by (simp only: r)
  have b: "list_all (\<lambda>q. index_valid q \<and> four_options q)
       (generate_quiz_questions stub_globals ?w ''lecture'' 5)"
    using stub_mode_stub_globals quiz_answer_index_repaired [of stub_globals ?w "''lecture''" 5]
    by blast
  show ?thesis using a b by blast
qed

section \<open>The endpoints\<close>

lemma clamp_bounds:
  "1 \<le> max 1 (min n (10::int)) \<and> max 1 (min n 10) \<le> 10 \<and> (n < 1 \<longrightarrow> max 1 (min n 10) = 1)
   \<and> (10 < n \<longrightarrow> max 1 (min n 10) = 10) \<and> (1 \<le> n \<and> n \<le> 10 \<longrightarrow> max 1 (min n 10) = n)"
  by auto

lemma truncate_short: "length t \<le> 16000 \<Longrightarrow> truncate_transcript t = t"
  by (simp add: truncate_transcript_def max_length_def)

lemma truncate_long:
  "16001 \<le> length t \<Longrightarrow>
   truncate_transcript t = take 16000 t @ ''\<newline>[Transcript truncated due to length...]''"
  by (simp add: truncate_transcript_def max_length_def truncation_marker_def)

lemma summary_endpoint_nonempty:
  "t \<noteq> [] \<Longrightarrow> generate_summary_endpoint g w \<lparr>transcript = t\<rparr> =
     Inr (JObj [(''success'', JBool True),
                (''summary'', JStr (generate_bullet_summary g w (truncate_transcript t)))])"
  by (simp add: generate_summary_endpoint_def)

lemma quiz_endpoint_nonempty:
  "t \<noteq> [] \<Longrightarrow> generate_quiz_endpoint g w \<lparr>quiz_transcript = t, num_questions = Some n\<rparr> =
     Inr (JObj [(''success'', JBool True),
                (''questions'', JArr (generate_quiz_questions g w (truncate_transcript t)
                                        (max 1 (min n 10))))])"
  by (simp add: generate_quiz_endpoint_def clamp_num_questions_def bind_exn_def)

text \<open>
  C9. For every integer \<open>num_questions\<close> of a request with a non-empty transcript,
  the quiz endpoint passes \<open>max(1, min(num_questions, 10))\<close> to the quiz generator:
  a value in 1..10, which is 1 for every value below 1 (0 and -1 among them), 10 for
  every value above 10 (15 among them), and the value itself in between.
\<close>

theorem quiz_endpoint_clamps_num_questions:
  assumes "quiz_transcript request \<noteq> []" and "num_questions request = Some n"
  shows "\<exists>k. clamp_num_questions (num_questions request) = Inr k
           \<and> 1 \<le> k \<and> k \<le> 10
           \<and> (n < 1 \<longrightarrow> k = 1) \<and> (10 < n \<longrightarrow> k = 10) \<and> (1 \<le> n \<and> n \<le> 10 \<longrightarrow> k = n)
           \<and> generate_quiz_endpoint g w request =
               Inr (JObj [(''success'', JBool True),
                          (''questions'',
                           JArr (generate_quiz_questions g w
                                   (truncate_transcript (quiz_transcript request)) k))])"
proof -
  let ?k = "max 1 (min n (10::int))"
  have c: "clamp_num_questions (num_questions request) = Inr ?k"
    using assms(2) by (simp add: clamp_num_questions_def)
  have e: "generate_quiz_endpoint g w request =
               Inr (JObj [(''success'', JBool True),
                          (''questions'',
                           JArr (generate_quiz_questions g w
                                   (truncate_transcript (quiz_transcript request)) ?k))])"
    using assms(1) c by (simp add: generate_quiz_endpoint_def bind_exn_def)
  show ?thesis using c e clamp_bounds [of n] by blast
qed

theorem quiz_endpoint_clamps_num_questions_witness:
  "clamp_num_questions (Some 0) = Inr 1
   \<and> clamp_num_questions (Some 15) = Inr 10
   \<and> clamp_num_questions (Some (- 1)) = Inr 1
   \<and> generate_quiz_endpoint stub_globals (world_with JNull)
        \<lparr>quiz_transcript = ''hello'', num_questions = Some 15\<rparr> =
      Inr (JObj [(''success'', JBool True), (''questions'', JArr mock_questions)])"
proof -
  have a: "clamp_num_questions (Some 0) = Inr 1"
    using quiz_endpoint_clamps_num_questions
      [of "\<lparr>quiz_transcript = ''hello'', num_questions = Some 0\<rparr>" 0 stub_globals "world_with JNull"]
    by auto
  have b: "clamp_num_questions (Some 15) = Inr 10
     \<and> generate_quiz_endpoint stub_globals (world_with JNull)
        \<lparr>quiz_transcript = ''hello'', num_questions = Some 15\<rparr> =
      Inr (JObj [(''success'', JBool True), (''questions'', JArr mock_questions)])"
    using stub_mode_stub_globals quiz_endpoint_clamps_num_questions
      [of "\<lparr>quiz_transcript = ''hello'', num_questions = Some 15\<rparr>" 15 stub_globals "world_with JNull"]
    by (auto simp: generate_quiz_questions_def)
  have c: "clamp_num_questions (Some (- 1)) = Inr 1"
    using quiz_endpoint_clamps_num_questions
      [of "\<lparr>quiz_transcript = ''hello'', num_questions = Some (- 1)\<rparr>" "- 1" stub_globals "world_with JNull"]
    by auto
  show ?thesis using a b c by blast
qed

text \<open>
  C10. A body that sets \<open>num_questions\<close> to \<open>null\<close> reaches the endpoint as
  \<open>None\<close>; with a non-empty transcript the clamping expression raises
  \<open>TypeError\<close>, which the handler of the endpoint turns into a 500 response. The
  default 5 is used only when the body leaves the field out.
\<close>

theorem quiz_endpoint_null_num_questions:
  assumes "t \<noteq> []"
  shows "clamp_num_questions (num_questions (QuizRequest_of_body t Null)) = Inl TypeError
       \<and> generate_quiz_endpoint g w (QuizRequest_of_body t Null) =
           Inl (HTTPException 500 (''Error generating quiz: '' @ exc_text w TypeError))
       \<and> num_questions (QuizRequest_of_body t Omitted) = Some 5
       \<and> generate_quiz_endpoint g w (QuizRequest_of_body t Omitted) =
           Inr (JObj [(''success'', JBool True),
                      (''questions'',
                       JArr (generate_quiz_questions g w (truncate_transcript t) 5))])"
  using assms
  by (simp add: QuizRequest_of_body_def clamp_num_questions_def generate_quiz_endpoint_def
      bind_exn_def)

theorem quiz_endpoint_null_num_questions_witness:
  "generate_quiz_endpoint stub_globals (world_with JNull) (QuizRequest_of_body ''hello'' Null) =
     Inl (HTTPException 500 ''Error generating quiz: TypeError'')
   \<and> generate_quiz_endpoint stub_globals (world_with JNull) (QuizRequest_of_body ''hello'' Omitted) =
     Inr (JObj [(''success'', JBool True), (''questions'', JArr mock_questions)])"
proof -
  have n: "''hello'' \<noteq> []" by simp
  show ?thesis
    using stub_mode_stub_globals
      quiz_endpoint_null_num_questions [OF n, of stub_globals "world_with JNull"]
    by (simp add: generate_quiz_questions_def world_with_def)
qed

text \<open>
  C8. In both endpoints a transcript of exactly 16000 characters reaches the generator
  unchanged, and a transcript of 16001 or more characters reaches it as its first
  16000 characters followed by the truncation marker.
\<close>

theorem transcript_truncation_boundary:
  "(length t = 16000 \<longrightarrow>
      generate_summary_endpoint g w \<lparr>transcript = t\<rparr> =
        Inr (JObj [(''success'', JBool True),
                   (''summary'', JStr (generate_bullet_summary g w t))])
      \<and> generate_quiz_endpoint g w \<lparr>quiz_transcript = t, num_questions = Some n\<rparr> =
        Inr (JObj [(''success'', JBool True),
                   (''questions'', JArr (generate_quiz_questions g w t (max 1 (min n 10))))]))
   \<and> (16001 \<le> length t \<longrightarrow>
      generate_summary_endpoint g w \<lparr>transcript = t\<rparr> =
        Inr (JObj [(''success'', JBool True),
                   (''summary'',
                    JStr (generate_bullet_summary g w
                            (take 16000 t @ ''\<newline>[Transcript truncated due to length...]'')))])
      \<and> generate_quiz_endpoint g w \<lparr>quiz_transcript = t, num_questions = Some n\<rparr> =
        Inr (JObj [(''success'', JBool True),
                   (''questions'',
                    JArr (generate_quiz_questions g w
                            (take 16000 t @ ''\<newline>[Transcript truncated due to length...]'')
                            (max 1 (min n 10))))]))"
proof -
  have a: "length t = 16000 \<Longrightarrow> t \<noteq> [] \<and> truncate_transcript t = t"
    using truncate_short [of t] by auto
  have b: "16001 \<le> length t \<Longrightarrow> t \<noteq> [] \<and> truncate_transcript t =
       take 16000 t @ ''\<newline>[Transcript truncated due to length...]''"
    using truncate_long [of t] by auto
  show ?thesis
    using a b summary_endpoint_nonempty [of t g w] quiz_endpoint_nonempty [of t g w n]
    by metis
qed

theorem transcript_truncation_boundary_witness:
  "generate_summary_endpoint live_globals (world_with JNull)
      \<lparr>transcript = replicate 16000 (CHR ''a'')\<rparr> =
     Inr (JObj [(''success'', JBool True), (''summary'', JStr (replicate 16000 (CHR ''a'')))])
   \<and> generate_summary_endpoint live_globals (world_with JNull)
      \<lparr>transcript = replicate 16001 (CHR ''a'')\<rparr> =
     Inr (JObj [(''success'', JBool True),
                (''summary'', JStr (replicate 16000 (CHR ''a'')
                                    @ ''\<newline>[Transcript truncated due to length...]''))])"
proof -
  have e: "\<And>x. generate_bullet_summary live_globals (world_with JNull) x = x"
    using live_mode_live_globals by (simp add: generate_bullet_summary_def world_with_def)
  have a: "length (replicate 16000 (CHR ''a'')) = 16000" by simp
  have b: "16001 \<le> length (replicate 16001 (CHR ''a''))" by simp
  have t: "take 16000 (replicate 16001 (CHR ''a'')) = replicate 16000 (CHR ''a'')" by simp
  show ?thesis
    using a b
      transcript_truncation_boundary [of "replicate 16000 (CHR ''a'')" live_globals "world_with JNull" 5]
      transcript_truncation_boundary [of "replicate 16001 (CHR ''a'')" live_globals "world_with JNull" 5]
    by (simp only: e t)
qed

text \<open>
  C5. The summary generator returns a string on every input and raises nothing: the
  mock summary in stub mode, the provider's text when the call succeeds, and the
  text \<open>Error generating summary: \<close> followed by the message of the exception when
  the call raises. In that last case the summary endpoint, which calls the generator
  for every non-empty transcript, returns the successful response carrying that
  string.
\<close>

theorem summary_failure_embedded_in_success:
  "(stub_mode g \<longrightarrow> generate_bullet_summary g w x = mock_summary)
   \<and> (\<not> stub_mode g \<and> groq_summary w x = Inr s \<longrightarrow> generate_bullet_summary g w x = s)
   \<and> (\<not> stub_mode g \<and> groq_summary w x = Inl e \<longrightarrow>
        generate_bullet_summary g w x = ''Error generating summary: '' @ str_exc w e)
   \<and> (t \<noteq> [] \<and> \<not> stub_mode g \<and> groq_summary w (truncate_transcript t) = Inl e \<longrightarrow>
        generate_summary_endpoint g w \<lparr>transcript = t\<rparr> =
          Inr (JObj [(''success'', JBool True),
                     (''summary'', JStr (''Error generating summary: '' @ str_exc w e))]))"
  by (simp add: generate_bullet_summary_def generate_summary_endpoint_def)

theorem summary_failure_embedded_in_success_witness:
  "generate_summary_endpoint live_globals
      ((world_with JNull)\<lparr>groq_summary := unreachable_llm\<rparr>) \<lparr>transcript = ''hello''\<rparr> =
     Inr (JObj [(''success'', JBool True),
                (''summary'', JStr ''Error generating summary: connection refused'')])"
proof -
  have f: "groq_summary ((world_with JNull)\<lparr>groq_summary := unreachable_llm\<rparr>)
             (truncate_transcript ''hello'') = Inl (UpstreamError ''connection refused'')"
    by (simp add: unreachable_llm_def)
  have n: "''hello'' \<noteq> []" by simp
  show ?thesis
    using live_mode_live_globals f n summary_failure_embedded_in_success
      [of live_globals "(world_with JNull)\<lparr>groq_summary := unreachable_llm\<rparr>" _ _
          "UpstreamError ''connection refused''" "''hello''"]
    by simp
qed

text \<open>
  C2. Claimed: an empty transcript is answered with a 400 response by the summary and
  the quiz endpoint. Both endpoints raise \<open>HTTPException(400)\<close> inside the
  \<open>try\<close> whose handler catches every \<open>Exception\<close> and raises
  \<open>HTTPException(500)\<close>; the response is a 500 that quotes the 400.
\<close>

theorem empty_transcript_answered_with_500:
  "generate_summary_endpoint g w \<lparr>transcript = []\<rparr> =
     Inl (HTTPException 500
            (''Error generating summary: ''
             @ exc_text w (HTTPException 400 ''Transcript is required'')))
   \<and> generate_quiz_endpoint g w \<lparr>quiz_transcript = [], num_questions = n\<rparr> =
     Inl (HTTPException 500
            (''Error generating quiz: ''
             @ exc_text w (HTTPException 400 ''Transcript is required'')))"
  by (simp add: generate_summary_endpoint_def generate_quiz_endpoint_def)

section \<open>Start-up and transcription\<close>

text \<open>
  C3. Claimed: without the transcription credential the process starts and the
  transcription component returns a fixed mock payload. The module raises
  \<open>ValueError\<close> at import when the credential is absent, so the process does not
  start.
\<close>

theorem startup_without_credential_fails:
  "startup no_credentials True =
     Inl (ValueError ''Missing DEEPGRAM_API_KEY environment variable'')"
  by (simp add: startup_def no_credentials_def falsy_def)

text \<open>
  C3, as the program has it. When \<open>DEEPGRAM_API_KEY\<close> is absent or empty, start-up
  fails with \<open>ValueError('Missing DEEPGRAM_API_KEY environment variable')\<close>, so a
  process that started has the key. \<open>transcribe_audio\<close> itself, run with an absent
  or empty key, returns the fixed mock payload for every file path.
\<close>

theorem transcription_credential_required:
  "(falsy (getenv ''DEEPGRAM_API_KEY'') \<longrightarrow>
      startup getenv groq_importable =
        Inl (ValueError ''Missing DEEPGRAM_API_KEY environment variable''))
   \<and> (startup getenv groq_importable = Inr g \<longrightarrow> \<not> falsy (DEEPGRAM_API_KEY g))
   \<and> (falsy (DEEPGRAM_API_KEY g') \<longrightarrow> transcribe_audio g' w file_path = Inr mock_transcription)"
  by (auto simp: startup_def transcribe_audio_def Let_def split: if_splits)

theorem transcription_credential_required_witness:
  "startup Map.empty False = Inl (ValueError ''Missing DEEPGRAM_API_KEY environment variable'')
   \<and> transcribe_audio (live_globals\<lparr>DEEPGRAM_API_KEY := None\<rparr>) (world_with JNull)
        ''uploads/1f0e.mp3'' = Inr mock_transcription"
proof -
  have a: "falsy (Map.empty ''DEEPGRAM_API_KEY'')" by (simp add: falsy_def)
  have b: "falsy (DEEPGRAM_API_KEY (live_globals\<lparr>DEEPGRAM_API_KEY := None\<rparr>))"
    by (simp add: falsy_def)
  show ?thesis
    using a b transcription_credential_required
      [of Map.empty False _ "live_globals\<lparr>DEEPGRAM_API_KEY := None\<rparr>" "world_with JNull"
          "''uploads/1f0e.mp3''"]
    by blast
qed

text \<open>
  C4. Claimed: for every accepted upload the temporary file is gone after the
  response, on the success path and on every failure path. The handler of a failed
  transcription removes the file (lines 154--158), and so does \<open>finally\<close>; the
  write of the file is outside that \<open>try\<close>. When copying fails after the file was
  opened, the endpoint answers 500 and the file it created stays on disk.
\<close>

theorem upload_left_after_failed_save:
  "transcribe_audio_endpoint live_globals ((world_with JNull)\<lparr>save_upload := disk_full\<rparr>)
     ''1f0e'' lecture_upload {} =
   (Inl (HTTPException 500 ''Error saving file: No space left on device''),
    {''uploads/1f0e.mp3''})"
  by (simp add: transcribe_audio_endpoint_def lecture_upload_def world_with_def disk_full_def
      UPLOAD_DIR_def)

text \<open>
  Once the file is written, the paths after the response are those before the
  request whenever the first \<open>os.remove\<close> succeeds, whether transcription raised
  or not.
\<close>

lemma upload_removed_after_transcription:
  assumes "content_type file = Some ct" and "take 6 ct = ''audio/''"
    and "filename file = Some name"
    and "file_path = UPLOAD_DIR @ ''/'' @ uuid4 @ splitext_ext w name"
    and "save_upload w file_path = Saved"
    and "os_remove w 0 file_path = None"
  shows "file_path \<notin> snd (transcribe_audio_endpoint g w uuid4 file fs)
       \<and> snd (transcribe_audio_endpoint g w uuid4 file fs) = fs - {file_path}
       \<and> (\<not> falsy (DEEPGRAM_API_KEY g) \<and> deepgram_transcribe w file_path = Inl e \<longrightarrow>
            fst (transcribe_audio_endpoint g w uuid4 file fs) =
              Inl (HTTPException 500 (''Error during transcription: '' @ str_exc w e)))
       \<and> (\<not> falsy (DEEPGRAM_API_KEY g) \<and> deepgram_transcribe w file_path = Inr r \<longrightarrow>
            fst (transcribe_audio_endpoint g w uuid4 file fs) =
              Inr (JObj [(''success'', JBool True),
                         (''filename'', JStr name),
                         (''transcription'', JStr (dg_transcript r)),
                         (''sentences'', JArr (map format_sentence (concat (dg_paragraphs r))))]))"
proof -
  have s: "snd (transcribe_audio_endpoint g w uuid4 file fs) = fs - {file_path}"
    using assms
    by (auto simp: transcribe_audio_endpoint_def remove_if_exists_def Let_def
        split: sum.splits)
  have f: "\<not> falsy (DEEPGRAM_API_KEY g) \<and> deepgram_transcribe w file_path = Inl e \<longrightarrow>
            fst (transcribe_audio_endpoint g w uuid4 file fs) =
              Inl (HTTPException 500 (''Error during transcription: '' @ str_exc w e))"
    using assms
    by (simp add: transcribe_audio_endpoint_def transcribe_audio_def bind_exn_def Let_def
        remove_if_exists_def)
  have k: "\<not> falsy (DEEPGRAM_API_KEY g) \<and> deepgram_transcribe w file_path = Inr r \<longrightarrow>
            fst (transcribe_audio_endpoint g w uuid4 file fs) =
              Inr (JObj [(''success'', JBool True),
                         (''filename'', JStr name),
                         (''transcription'', JStr (dg_transcript r)),
                         (''sentences'', JArr (map format_sentence (concat (dg_paragraphs r))))])"
    using assms
    by (simp add: transcribe_audio_endpoint_def transcribe_audio_def bind_exn_def Let_def
        remove_if_exists_def)
  show ?thesis using s f k by simp
qed

text \<open>When every \<open>os.remove\<close> raises, the written file stays and the response is that exception.\<close>

lemma upload_stays_when_removal_fails:
  assumes "content_type file = Some ct" and "take 6 ct = ''audio/''"
    and "filename file = Some name"
    and "file_path = UPLOAD_DIR @ ''/'' @ uuid4 @ splitext_ext w name"
    and "save_upload w file_path = Saved"
    and "os_remove w 0 file_path = Some e0" and "os_remove w 1 file_path = Some e1"
  shows "file_path \<in> snd (transcribe_audio_endpoint g w uuid4 file fs)"
  using assms
  by (auto simp: transcribe_audio_endpoint_def remove_if_exists_def Let_def
      split: sum.splits)

section \<open>Normalising the provider's quiz response\<close>

lemma find_first:
  assumes "P x" and "\<forall>y \<in> set pre. \<not> P y"
  shows "find P (pre @ x # post) = Some x"
  using assms by (induction pre) auto

lemma find_none: "\<forall>y \<in> set xs. \<not> P y \<Longrightarrow> find P xs = None"
  by (induction xs) auto

lemma live_parse:
  assumes "\<not> stub_mode g" and "groq_quiz w t n = Inr quiz_text"
  shows "generate_quiz_questions g w t n =
     (case parse_quiz w quiz_text of
        Inl e \<Rightarrow> [parse_error_question (str_exc w e)] | Inr qs \<Rightarrow> qs)"
  using assms by (simp add: generate_quiz_questions_def)

lemma parse_quiz_array:
  assumes "json_loads w quiz_text = Inr d" and "extract_questions d = Inr (JArr qs)"
  shows "parse_quiz w quiz_text = validate_loop w qs []"
  using assms by (simp add: parse_quiz_def bind_exn_def)

lemma parse_quiz_no_array:
  assumes "json_loads w quiz_text = Inr d" and "extract_questions d = Inl e"
  shows "parse_quiz w quiz_text = Inl e"
  using assms by (simp add: parse_quiz_def bind_exn_def)

lemma extract_scalar: "scalar d \<Longrightarrow> extract_questions d = Inl AttributeError"
  by (cases d) auto

text \<open>
  In live mode, with a response from the provider: a direct array, the array under
  the \<open>questions\<close> key of an object, and, in an object without a \<open>questions\<close>
  key, the first value that is a non-empty array are what the validation loop runs
  on. The result is the single error question when parsing raises, when an object
  has no \<open>questions\<close> key and no value that is a non-empty array, and when the
  parsed value is neither an object nor an array.
\<close>

lemma quiz_shapes_normalised:
  assumes "\<not> stub_mode g" and "groq_quiz w t n = Inr quiz_text"
  shows "(json_loads w quiz_text = Inr (JArr qs) \<longrightarrow>
            generate_quiz_questions g w t n =
              (case validate_loop w qs [] of
                 Inl e \<Rightarrow> [parse_error_question (str_exc w e)] | Inr v \<Rightarrow> v))
       \<and> (json_loads w quiz_text = Inr (JObj kvs) \<and> map_of kvs ''questions'' = Some (JArr qs) \<longrightarrow>
            generate_quiz_questions g w t n =
              (case validate_loop w qs [] of
                 Inl e \<Rightarrow> [parse_error_question (str_exc w e)] | Inr v \<Rightarrow> v))
       \<and> (json_loads w quiz_text = Inr (JObj (pre @ (k, JArr qs) # post))
            \<and> map_of (pre @ (k, JArr qs) # post) ''questions'' = None
            \<and> qs \<noteq> [] \<and> (\<forall>kv \<in> set pre. \<not> nonempty_list (snd kv)) \<longrightarrow>
            generate_quiz_questions g w t n =
              (case validate_loop w qs [] of
                 Inl e \<Rightarrow> [parse_error_question (str_exc w e)] | Inr v \<Rightarrow> v))
       \<and> (json_loads w quiz_text = Inl e \<longrightarrow>
            generate_quiz_questions g w t n = [parse_error_question (str_exc w e)])
       \<and> (json_loads w quiz_text = Inr (JObj kvs) \<and> map_of kvs ''questions'' = None
            \<and> (\<forall>kv \<in> set kvs. \<not> nonempty_list (snd kv)) \<longrightarrow>
            generate_quiz_questions g w t n =
              [parse_error_question ''Could not extract questions array from response''])
       \<and> (json_loads w quiz_text = Inr d \<and> scalar d \<longrightarrow>
            generate_quiz_questions g w t n = [parse_error_question (exc_text w AttributeError)])"
proof -
  note lp = live_parse [OF assms]
  have a: "json_loads w quiz_text = Inr (JArr qs) \<longrightarrow>
            generate_quiz_questions g w t n =
              (case validate_loop w qs [] of
                 Inl e \<Rightarrow> [parse_error_question (str_exc w e)] | Inr v \<Rightarrow> v)"
    by (simp add: lp parse_quiz_array)
  have b: "json_loads w quiz_text = Inr (JObj kvs) \<and> map_of kvs ''questions'' = Some (JArr qs) \<longrightarrow>
            generate_quiz_questions g w t n =
              (case validate_loop w qs [] of
                 Inl e \<Rightarrow> [parse_error_question (str_exc w e)] | Inr v \<Rightarrow> v)"
    by (simp add: lp parse_quiz_array)
  have c: "json_loads w quiz_text = Inr (JObj (pre @ (k, JArr qs) # post))
            \<and> map_of (pre @ (k, JArr qs) # post) ''questions'' = None
            \<and> qs \<noteq> [] \<and> (\<forall>kv \<in> set pre. \<not> nonempty_list (snd kv)) \<longrightarrow>
            generate_quiz_questions g w t n =
              (case validate_loop w qs [] of
                 Inl e \<Rightarrow> [parse_error_question (str_exc w e)] | Inr v \<Rightarrow> v)"
  proof (intro impI, elim conjE)
    assume j: "json_loads w quiz_text = Inr (JObj (pre @ (k, JArr qs) # post))"
      and m: "map_of (pre @ (k, JArr qs) # post) ''questions'' = None"
      and q: "qs \<noteq> []" and p: "\<forall>kv \<in> set pre. \<not> nonempty_list (snd kv)"
    have fnd: "find (\<lambda>kv. nonempty_list (snd kv)) (pre @ (k, JArr qs) # post) = Some (k, JArr qs)"
      using q p by (intro find_first) simp_all
    have "extract_questions (JObj (pre @ (k, JArr qs) # post)) = Inr (JArr qs)"
      unfolding extract_questions.simps m fnd by simp
    then show "generate_quiz_questions g w t n =
              (case validate_loop w qs [] of
                 Inl e \<Rightarrow> [parse_error_question (str_exc w e)] | Inr v \<Rightarrow> v)"
      using j by (simp only: lp parse_quiz_array)
  qed
  have d: "json_loads w quiz_text = Inl e \<longrightarrow>
            generate_quiz_questions g w t n = [parse_error_question (str_exc w e)]"
    by (simp add: lp parse_quiz_def bind_exn_def)
  have e: "json_loads w quiz_text = Inr (JObj kvs) \<and> map_of kvs ''questions'' = None
            \<and> (\<forall>kv \<in> set kvs. \<not> nonempty_list (snd kv)) \<longrightarrow>
            generate_quiz_questions g w t n =
              [parse_error_question ''Could not extract questions array from response'']"
    by (simp add: lp parse_quiz_def bind_exn_def find_none)
  have f: "json_loads w quiz_text = Inr d \<and> scalar d \<longrightarrow>
            generate_quiz_questions g w t n = [parse_error_question (exc_text w AttributeError)]"
    by (auto simp: lp parse_quiz_no_array extract_scalar)
  show ?thesis using a b c d e f by blast
qed

lemma quiz_shapes_normalised_example:
  "generate_quiz_questions live_globals (world_with wrapped_quiz) ''lecture'' 5 = [sample_question]
   \<and> generate_quiz_questions live_globals (world_with (JObj [(''title'', JStr ''Quiz'')])) ''lecture'' 5 =
       [parse_error_question ''Could not extract questions array from response'']"
proof -
  have g: "groq_quiz (world_with wrapped_quiz) ''lecture'' 5 = Inr ''response''"
    "groq_quiz (world_with (JObj [(''title'', JStr ''Quiz'')])) ''lecture'' 5 = Inr ''response''"
    by (simp_all add: world_with_def)
  have j: "json_loads (world_with wrapped_quiz) ''response'' =
      Inr (JObj ([(''title'', JStr ''Quiz''), (''empty'', JArr [])] @ (''foo'', JArr [sample_question])
                 # [(''bar'', JArr [JNull])]))"
    by (simp add: world_with_def wrapped_quiz_def)
  have v: "validate_loop (world_with wrapped_quiz) [sample_question] [] = Inr [sample_question]"
    by (simp add: sample_question_def validate_question_def has_fields_def coerce_answer_def
        answer_invalid_def bind_exn_def)
  have a: "generate_quiz_questions live_globals (world_with wrapped_quiz) ''lecture'' 5 = [sample_question]"
    using j v quiz_shapes_normalised [OF live_mode_live_globals g(1),
        of "[sample_question]" _ "[(''title'', JStr ''Quiz''), (''empty'', JArr [])]" "''foo''"
           "[(''bar'', JArr [JNull])]"]
    by simp
  have j2: "json_loads (world_with (JObj [(''title'', JStr ''Quiz'')])) ''response'' =
      Inr (JObj [(''title'', JStr ''Quiz'')])"
    by (simp add: world_with_def)
  have b: "generate_quiz_questions live_globals (world_with (JObj [(''title'', JStr ''Quiz'')])) ''lecture'' 5 =
       [parse_error_question ''Could not extract questions array from response'']"
    using j2 quiz_shapes_normalised [OF live_mode_live_globals g(2),
        of _ "[(''title'', JStr ''Quiz'')]"]
    by simp
  show ?thesis using a b by blast
qed

text \<open>
  A \<open>questions\<close> key whose value cannot be iterated (\<open>null\<close>, a boolean, a number)
  also gives the error question: the \<open>for\<close> loop raises \<open>TypeError\<close>.
\<close>

lemma questions_not_iterable:
  assumes "\<not> stub_mode g" and "groq_quiz w t n = Inr quiz_text"
    and "json_loads w quiz_text = Inr (JObj kvs)" and "map_of kvs ''questions'' = Some v"
    and "v = JNull \<or> (\<exists>b. v = JBool b) \<or> (\<exists>i. v = JInt i) \<or> (\<exists>f. v = JFloat f)"
  shows "generate_quiz_questions g w t n = [parse_error_question (exc_text w TypeError)]"
  using assms by (auto simp: live_parse parse_quiz_def bind_exn_def)

text \<open>
  C6. Claimed: the question array is taken from a direct array, from the
  \<open>questions\<close> key of an object, or from the first non-empty array value of an
  object, and when no array can be located or parsing fails the result is the single
  error question. The branch for the \<open>questions\<close> key (lines 355--356) takes the
  value without the \<open>isinstance(value, list)\<close> test that the search of the other
  keys makes (line 363). The response \<open>{"questions": "abc"}\<close> holds no array; its
  string is iterated character by character, no character is a question, and the
  result is the empty list, not the error question.
\<close>

theorem questions_string_gives_no_question:
  "generate_quiz_questions live_globals (world_with questions_string) ''lecture'' 5 = []"
  by (simp add: generate_quiz_questions_def live_globals_def world_with_def stub_mode_def
      falsy_def parse_quiz_def bind_exn_def questions_string_def validate_question_def
      has_fields_def)

lemma decimal_value_nonneg:
  "0 \<le> acc \<Longrightarrow> list_all is_decimal s \<Longrightarrow> 0 \<le> decimal_value acc s"
  by (induction s arbitrary: acc) (auto simp: is_decimal_def)

lemma missing_field_dropped:
  assumes "map_of kvs ''question'' = None \<or> map_of kvs ''options'' = None
           \<or> map_of kvs ''correct_answer'' = None"
  shows "validate_question w (JObj kvs) = Inr None"
  using assms by (auto simp: validate_question_def has_fields_def bind_exn_def)

lemma digit_string_coerced:
  assumes "map_of kvs ''question'' = Some qt" and "map_of kvs ''options'' = Some (JArr opts)"
    and "map_of kvs ''correct_answer'' = Some (JStr s)"
    and "s \<noteq> []" and "list_all is_decimal s"
    and "int_max_str_digits w = 0 \<or> length s \<le> int_max_str_digits w"
    and "decimal_value 0 s < int (length opts)"
  shows "validate_question w (JObj kvs) =
           Inr (Some (JObj (dict_set kvs ''correct_answer'' (JInt (decimal_value 0 s)))))"
proof -
  have d: "isdigit s" using assms(4,5) by (auto simp: isdigit_def list_all_iff)
  have i: "py_int w s = Inr (decimal_value 0 s)" using assms(4,5,6) by (simp add: py_int_def)
  have n: "0 \<le> decimal_value 0 s" using assms(5) by (simp add: decimal_value_nonneg)
  show ?thesis
    using assms(1,2,3,7) d i n
    by (simp add: validate_question_def has_fields_def coerce_answer_def answer_invalid_def
        bind_exn_def map_of_dict_set_same map_of_dict_set_other)
qed

lemma invalid_answer_defaulted:
  assumes "map_of kvs ''question'' = Some qt" and "map_of kvs ''options'' = Some (JArr opts)"
    and "map_of kvs ''correct_answer'' = Some ca"
    and "\<forall>s. ca = JStr s \<longrightarrow> \<not> isdigit s"
    and "int_value ca = None \<or> (\<exists>n. int_value ca = Some n \<and> (n < 0 \<or> int (length opts) \<le> n))"
  shows "validate_question w (JObj kvs) =
           Inr (Some (JObj (dict_set kvs ''correct_answer'' (JInt 0))))"
proof -
  have c: "coerce_answer w (JObj kvs) = Inr (JObj kvs)"
    using assms(3,4) by (cases ca) (simp_all add: coerce_answer_def bind_exn_def)
  have a: "answer_invalid (JObj kvs) = Inr True"
    using assms(2,3,5) by (auto simp: answer_invalid_def bind_exn_def)
  show ?thesis
    using assms(1,2,3) c a
    by (simp add: validate_question_def has_fields_def bind_exn_def)
qed

lemma non_object_question_raises:
  "validate_question w JNull = Inl TypeError" "validate_question w (JInt n) = Inl TypeError"
  by (simp_all add: validate_question_def has_fields_def bind_exn_def)

text \<open>
  C7. Claimed: a raw question lacking one of the three fields is dropped, a string of
  digits is coerced to its integer, and an answer that is not a valid integer or is
  out of range becomes 0 and the question is kept. The three lemmas above show this
  for the answers the program handles. The string \<open>"\<twosuperior>"\<close> (U+00B2) is not a
  valid integer, yet \<open>isdigit\<close> accepts it and \<open>int\<close> raises on it: the loop
  ends, and the whole result, valid questions included, is replaced by the error
  question.
\<close>

theorem superscript_answer_breaks_quiz:
  "generate_quiz_questions live_globals (world_with superscript_quiz) ''lecture'' 5 =
     [parse_error_question ''invalid literal for int() with base 10'']"
  by (simp add: generate_quiz_questions_def live_globals_def world_with_def stub_mode_def
      falsy_def parse_quiz_def bind_exn_def superscript_quiz_def sample_question_def
      validate_question_def has_fields_def coerce_answer_def answer_invalid_def isdigit_def
      is_decimal_def is_superscript_def py_int_def)

end
